theory Spec2Isabelle
  imports Complex_Main
begin

section \<open>The plant analysis service: values, errors and the outside world\<close>

text \<open>
  The service is three Python modules: \<^verbatim>\<open>app/api/router.py\<close> (the request and response
  models and the two handlers), \<^verbatim>\<open>app/services/analyzer.py\<close> (the mock analyzer) and
  \<^verbatim>\<open>app/config.py\<close> (the settings). Each function of the first two is embedded below
  under its own name.

  A Python \<^verbatim>\<open>str\<close> is a \<open>string\<close>. Text outside ASCII (the two Thai care tips) is
  written as its UTF-8 bytes; the source never indexes or measures a string, it only
  tests one for emptiness, concatenates and passes it on, and these agree with the
  code-point view.

  The analyzer returns a loosely typed \<^verbatim>\<open>dict\<close>. Its values are the type \<open>pyval\<close>; a
  dict is an association list in the order of the dict literal, since Python dicts keep
  insertion order. A float literal stands for the real number it denotes.
\<close>

datatype pyval =
    PNone
  | PBool bool
  | PInt int
  | PFloat real
  | PStr string
  | PList "pyval list"
  | PDict "(string \<times> pyval) list"

type_synonym dict = "(string \<times> pyval) list"

text \<open>
  The exceptions the code raises. \<open>HTTPException\<close> carries the status code and the
  detail; \<open>ValidationError\<close> is what the response model raises on a field that is missing
  or of the wrong type.
\<close>

datatype error =
    ValueError string
  | NotImplementedError string
  | HTTPException nat string
  | ValidationError string

text \<open>Truthiness of an \<^verbatim>\<open>Optional[str]\<close>: \<^verbatim>\<open>None\<close> and \<^verbatim>\<open>""\<close> are falsy.\<close>

fun truthy :: "string option \<Rightarrow> bool" where
  "truthy None = False"
| "truthy (Some s) = (s \<noteq> [])"

text \<open>\<^verbatim>\<open>x or d\<close> on an optional string: \<^verbatim>\<open>x\<close> when it is truthy, otherwise \<^verbatim>\<open>d\<close>.\<close>

fun py_or :: "string option \<Rightarrow> string \<Rightarrow> string" where
  "py_or None d = d"
| "py_or (Some s) d = (if s \<noteq> [] then s else d)"

subsection \<open>Settings\<close>

text \<open>
  \<^verbatim>\<open>class Settings(BaseSettings)\<close> of \<^verbatim>\<open>config.py\<close>. \<^verbatim>\<open>get_settings()\<close> is cached
  and so returns one object for the life of the process; the functions below take it as
  an argument.
\<close>

record settings =
  service_name :: string
  log_level :: string
  model_path :: string
  mock_analysis :: bool

definition default_settings :: settings where
  "default_settings =
     \<lparr>service_name = ''smart-plant-analysis'',
      log_level = ''info'',
      model_path = ''/models/plant_classifier.onnx'',
      mock_analysis = True\<rparr>"

subsection \<open>The clock and the logger\<close>

text \<open>
  A naive \<^verbatim>\<open>datetime\<close>, as \<^verbatim>\<open>datetime.utcnow()\<close> returns it. The fields of a value the
  library hands out lie in the ranges of \<open>valid_datetime\<close> (which does not look at the
  length of the month, so it admits every real date and a few more).
\<close>

record datetime =
  year :: nat
  month :: nat
  day :: nat
  hour :: nat
  minute :: nat
  second :: nat
  microsecond :: nat

definition valid_datetime :: "datetime \<Rightarrow> bool" where
  "valid_datetime d =
     (1 \<le> year d \<and> year d \<le> 9999 \<and> 1 \<le> month d \<and> month d \<le> 12 \<and>
      1 \<le> day d \<and> day d \<le> 31 \<and> hour d < 24 \<and> minute d < 60 \<and> second d < 60 \<and>
      microsecond d < 1000000)"

text \<open>
  A log record as the \<^verbatim>\<open>logging\<close> module builds it from a call: the level, the message
  and the \<^verbatim>\<open>extra\<close> mapping.
\<close>

record log_record =
  levelno :: nat
  msg :: string
  extra :: dict

text \<open>
  Everything outside the functions: \<open>level\<close> is the threshold that
  \<^verbatim>\<open>logging.basicConfig\<close> installed at import, \<open>records\<close> the log records emitted so
  far, oldest first, and \<open>clock\<close> the readings the system clock will give, \<open>clock 0\<close>
  being the next one.
\<close>

record world =
  level :: nat
  records :: "log_record list"
  clock :: "nat \<Rightarrow> datetime"

definition DEBUG :: nat where "DEBUG = 10"
definition INFO :: nat where "INFO = 20"

text \<open>\<^verbatim>\<open>Logger.log\<close>: a record below the threshold is dropped.\<close>

definition logger_log :: "nat \<Rightarrow> string \<Rightarrow> dict \<Rightarrow> world \<Rightarrow> world" where
  "logger_log lvl m ex w =
     (if level w \<le> lvl
      then w\<lparr>records := records w @ [\<lparr>levelno = lvl, msg = m, extra = ex\<rparr>]\<rparr>
      else w)"

definition logger_debug :: "string \<Rightarrow> world \<Rightarrow> world" where
  "logger_debug m w = logger_log DEBUG m [] w"

definition logger_info :: "string \<Rightarrow> dict \<Rightarrow> world \<Rightarrow> world" where
  "logger_info m ex w = logger_log INFO m ex w"

text \<open>\<^verbatim>\<open>datetime.utcnow()\<close> takes the next reading of the clock.\<close>

definition utcnow :: "world \<Rightarrow> datetime \<times> world" where
  "utcnow w = (clock w 0, w\<lparr>clock := \<lambda>n. clock w (Suc n)\<rparr>)"

subsection \<open>Formatting a timestamp\<close>

text \<open>
  \<^verbatim>\<open>"%0wd" % n\<close> for a natural number: the decimal digits of \<open>n\<close>, padded on the left
  with zeros to at least \<open>w\<close> characters.
\<close>

definition digit_char :: "nat \<Rightarrow> char" where
  "digit_char n = ''0123456789'' ! n"

fun dec :: "nat \<Rightarrow> string" where
  "dec n = (if n < 10 then [digit_char n] else dec (n div 10) @ [digit_char (n mod 10)])"

declare dec.simps [simp del]

definition zfill :: "nat \<Rightarrow> string \<Rightarrow> string" where
  "zfill w s = replicate (w - length s) (CHR ''0'') @ s"

definition fmt_0d :: "nat \<Rightarrow> nat \<Rightarrow> string" where
  "fmt_0d w n = zfill w (dec n)"

text \<open>
  \<^verbatim>\<open>datetime.isoformat()\<close> of a naive datetime: the date, \<^verbatim>\<open>T\<close>, the time, and the
  microseconds after a dot only when they are not zero.
\<close>

definition isoformat :: "datetime \<Rightarrow> string" where
  "isoformat d =
     fmt_0d 4 (year d) @ ''-'' @ fmt_0d 2 (month d) @ ''-'' @ fmt_0d 2 (day d) @ ''T'' @
     fmt_0d 2 (hour d) @ '':'' @ fmt_0d 2 (minute d) @ '':'' @ fmt_0d 2 (second d) @
     (if microsecond d \<noteq> 0 then ''.'' @ fmt_0d 6 (microsecond d) else [])"

text \<open>
  \<^verbatim>\<open>def _now_iso(): return datetime.utcnow().replace(microsecond=0).isoformat() + "Z"\<close>
\<close>

definition now_iso :: "world \<Rightarrow> string \<times> world" where
  "now_iso w = (case utcnow w of (d, w') \<Rightarrow> (isoformat (d\<lparr>microsecond := 0\<rparr>) @ ''Z'', w'))"

section \<open>The analyzer (\<^verbatim>\<open>app/services/analyzer.py\<close>)\<close>

text \<open>
  \<^verbatim>\<open>run_mock_analysis(plant_name=None)\<close>. The dict literal is evaluated left to right, so
  \<^verbatim>\<open>capturedAt\<close> takes the first reading of the clock and \<^verbatim>\<open>createdAt\<close> the second.
\<close>

definition run_mock_analysis :: "string option \<Rightarrow> world \<Rightarrow> dict \<times> world" where
  "run_mock_analysis plant_name w =
     (let w1 = logger_debug ''Running mock analysis'' w;
          detected_name = py_or plant_name ''Monstera Deliciosa'';
          recommendations =
            [PDict
               [(''id'', PStr ''tip_water_adjust''),
                (''title'', PStr
                   [CHR 0xE0, CHR 0xB8, CHR 0xA5, CHR 0xE0, CHR 0xB8, CHR 0x94, CHR 0xE0, CHR 0xB8, CHR 0x81,
                    CHR 0xE0, CHR 0xB8, CHR 0xB2, CHR 0xE0, CHR 0xB8, CHR 0xA3, CHR 0xE0, CHR 0xB8, CHR 0xA3,
                    CHR 0xE0, CHR 0xB8, CHR 0x94, CHR 0xE0, CHR 0xB8, CHR 0x99, CHR 0xE0, CHR 0xB9, CHR 0x89,
                    CHR 0xE0, CHR 0xB8, CHR 0xB3]),
                (''desc'', PStr
                   [CHR 0xE0, CHR 0xB8, CHR 0xA5, CHR 0xE0, CHR 0xB8, CHR 0x94, CHR 0xE0, CHR 0xB8, CHR 0x84,
                    CHR 0xE0, CHR 0xB8, CHR 0xA7, CHR 0xE0, CHR 0xB8, CHR 0xB2, CHR 0xE0, CHR 0xB8, CHR 0xA1,
                    CHR 0xE0, CHR 0xB8, CHR 0x96, CHR 0xE0, CHR 0xB8, CHR 0xB5, CHR 0xE0, CHR 0xB9, CHR 0x88,
                    CHR 0xE0, CHR 0xB8, CHR 0xA5, CHR 0xE0, CHR 0xB8, CHR 0x87, CHR 0xE0, CHR 0xB9, CHR 0x80,
                    CHR 0xE0, CHR 0xB8, CHR 0xAB, CHR 0xE0, CHR 0xB8, CHR 0xA5, CHR 0xE0, CHR 0xB8, CHR 0xB7,
                    CHR 0xE0, CHR 0xB8, CHR 0xAD, CHR 0xE0, CHR 0xB8, CHR 0x97, CHR 0xE0, CHR 0xB8, CHR 0xB8,
                    CHR 0xE0, CHR 0xB8, CHR 0x81, CHR 0x20, CHR 0x35, CHR 0x20, CHR 0xE0, CHR 0xB8, CHR 0xA7,
                    CHR 0xE0, CHR 0xB8, CHR 0xB1, CHR 0xE0, CHR 0xB8, CHR 0x99])],
             PDict
               [(''id'', PStr ''tip_light''),
                (''title'', PStr
                   [CHR 0xE0, CHR 0xB9, CHR 0x80, CHR 0xE0, CHR 0xB8, CHR 0x9E, CHR 0xE0, CHR 0xB8, CHR 0xB4,
                    CHR 0xE0, CHR 0xB9, CHR 0x88, CHR 0xE0, CHR 0xB8, CHR 0xA1, CHR 0xE0, CHR 0xB9, CHR 0x81,
                    CHR 0xE0, CHR 0xB8, CHR 0xAA, CHR 0xE0, CHR 0xB8, CHR 0x87, CHR 0xE0, CHR 0xB8, CHR 0xAD,
                    CHR 0xE0, CHR 0xB9, CHR 0x88, CHR 0xE0, CHR 0xB8, CHR 0xAD, CHR 0xE0, CHR 0xB8, CHR 0x99]),
                (''desc'', PStr
                   [CHR 0xE0, CHR 0xB8, CHR 0x95, CHR 0xE0, CHR 0xB8, CHR 0xB1, CHR 0xE0, CHR 0xB9, CHR 0x89,
                    CHR 0xE0, CHR 0xB8, CHR 0x87, CHR 0xE0, CHR 0xB9, CHR 0x83, CHR 0xE0, CHR 0xB8, CHR 0x81,
                    CHR 0xE0, CHR 0xB8, CHR 0xA5, CHR 0xE0, CHR 0xB9, CHR 0x89, CHR 0xE0, CHR 0xB8, CHR 0xAB,
                    CHR 0xE0, CHR 0xB8, CHR 0x99, CHR 0xE0, CHR 0xB9, CHR 0x89, CHR 0xE0, CHR 0xB8, CHR 0xB2,
                    CHR 0xE0, CHR 0xB8, CHR 0x95, CHR 0xE0, CHR 0xB9, CHR 0x88, CHR 0xE0, CHR 0xB8, CHR 0xB2,
                    CHR 0xE0, CHR 0xB8, CHR 0x87, CHR 0xE0, CHR 0xB8, CHR 0x81, CHR 0xE0, CHR 0xB8, CHR 0xA3,
                    CHR 0xE0, CHR 0xB8, CHR 0xAD, CHR 0xE0, CHR 0xB8, CHR 0x87, CHR 0xE0, CHR 0xB9, CHR 0x81,
                    CHR 0xE0, CHR 0xB8, CHR 0xAA, CHR 0xE0, CHR 0xB8, CHR 0x87, CHR 0xE0, CHR 0xB9, CHR 0x83,
                    CHR 0xE0, CHR 0xB8, CHR 0x99, CHR 0xE0, CHR 0xB8, CHR 0x95, CHR 0xE0, CHR 0xB8, CHR 0xAD,
                    CHR 0xE0, CHR 0xB8, CHR 0x99, CHR 0xE0, CHR 0xB9, CHR 0x80, CHR 0xE0, CHR 0xB8, CHR 0x8A,
                    CHR 0xE0, CHR 0xB9, CHR 0x89, CHR 0xE0, CHR 0xB8, CHR 0xB2])]]
      in case now_iso w1 of (capturedAt, w2) \<Rightarrow>
         case now_iso w2 of (createdAt, w3) \<Rightarrow>
           ([(''id'', PStr ''analysis_mock_001''),
             (''status'', PStr ''completed''),
             (''plantName'', PStr detected_name),
             (''issues'', PList
                [PDict [(''code'', PStr ''yellow_leaf''), (''severity'', PStr ''moderate''),
                        (''confidence'', PFloat 0.72)]]),
             (''score'', PFloat 0.85),
             (''recommendations'', PList recommendations),
             (''weatherSnapshot'', PDict
                [(''tempC'', PInt 33), (''humidity'', PInt 70), (''condition'', PStr ''sunny''),
                 (''capturedAt'', PStr capturedAt)]),
             (''createdAt'', PStr createdAt)],
            w3))"

text \<open>
  \<^verbatim>\<open>analyze_image(image_url, image_base64)\<close>: the log record is emitted first, whatever
  the mode; the raise leaves the world as the log call left it.
\<close>

definition analyze_image ::
  "settings \<Rightarrow> string option \<Rightarrow> string option \<Rightarrow> world \<Rightarrow> (error + dict) \<times> world" where
  "analyze_image st image_url image_base64 w =
     (let w1 = logger_info ''Received analysis request''
                 [(''hasUrl'', PBool (truthy image_url)),
                  (''hasBase64'', PBool (truthy image_base64))] w
      in if mock_analysis st
         then (case run_mock_analysis None w1 of (result, w2) \<Rightarrow> (Inr result, w2))
         else (Inl (NotImplementedError ''Real model inference not yet implemented''), w1))"

section \<open>The HTTP layer (\<^verbatim>\<open>app/api/router.py\<close>)\<close>

record AnalyzeRequest =
  imageUrl :: "string option"
  imageBase64 :: "string option"

text \<open>\<^verbatim>\<open>AnalyzeRequest.validate_payload\<close> returns \<^verbatim>\<open>None\<close> or raises.\<close>

definition validate_payload :: "AnalyzeRequest \<Rightarrow> error + unit" where
  "validate_payload req =
     (if \<not> truthy (imageUrl req) \<and> \<not> truthy (imageBase64 req)
      then Inl (ValueError ''Either imageUrl or imageBase64 must be provided'')
      else Inr ())"

text \<open>
  \<^verbatim>\<open>class AnalyzeResponse(BaseModel)\<close>: eight required fields. The field \<^verbatim>\<open>id\<close> is
  \<open>id_field\<close> here, \<open>id\<close> being the identity function of HOL.
\<close>

record AnalyzeResponse =
  id_field :: string
  status :: string
  plantName :: string
  issues :: "dict list"
  score :: real
  recommendations :: "dict list"
  weatherSnapshot :: dict
  createdAt :: string

text \<open>
  The field validators of the model, by annotation: \<^verbatim>\<open>str\<close>, \<^verbatim>\<open>float\<close> (an \<^verbatim>\<open>int\<close> is
  accepted and converted), \<^verbatim>\<open>dict\<close> and \<^verbatim>\<open>list[dict]\<close>. A missing key and a value of
  another type both give \<open>None\<close>.
\<close>

fun str_field :: "dict \<Rightarrow> string \<Rightarrow> string option" where
  "str_field kw k = (case map_of kw k of Some (PStr s) \<Rightarrow> Some s | _ \<Rightarrow> None)"

fun float_field :: "dict \<Rightarrow> string \<Rightarrow> real option" where
  "float_field kw k =
     (case map_of kw k of Some (PFloat x) \<Rightarrow> Some x | Some (PInt i) \<Rightarrow> Some (of_int i) | _ \<Rightarrow> None)"

fun dict_field :: "dict \<Rightarrow> string \<Rightarrow> dict option" where
  "dict_field kw k = (case map_of kw k of Some (PDict d) \<Rightarrow> Some d | _ \<Rightarrow> None)"

fun as_dicts :: "pyval list \<Rightarrow> dict list option" where
  "as_dicts [] = Some []"
| "as_dicts (PDict d # vs) = (case as_dicts vs of Some ds \<Rightarrow> Some (d # ds) | None \<Rightarrow> None)"
| "as_dicts (_ # vs) = None"

fun dict_list_field :: "dict \<Rightarrow> string \<Rightarrow> dict list option" where
  "dict_list_field kw k = (case map_of kw k of Some (PList vs) \<Rightarrow> as_dicts vs | _ \<Rightarrow> None)"

text \<open>
  \<^verbatim>\<open>AnalyzeResponse(**kw)\<close>: every field must be present and valid; a keyword that names
  no field is ignored, which is the default of \<^verbatim>\<open>BaseModel\<close>.
\<close>

definition AnalyzeResponse_init :: "dict \<Rightarrow> error + AnalyzeResponse" where
  "AnalyzeResponse_init kw =
     (case (str_field kw ''id'', str_field kw ''status'', str_field kw ''plantName'',
            dict_list_field kw ''issues'', float_field kw ''score'',
            dict_list_field kw ''recommendations'', dict_field kw ''weatherSnapshot'',
            str_field kw ''createdAt'') of
        (Some i, Some s, Some p, Some iss, Some sc, Some recs, Some ws, Some c) \<Rightarrow>
          Inr \<lparr>id_field = i, status = s, plantName = p, issues = iss, score = sc,
               recommendations = recs, weatherSnapshot = ws, createdAt = c\<rparr>
      | _ \<Rightarrow> Inl (ValidationError ''AnalyzeResponse''))"

text \<open>\<^verbatim>\<open>GET /v1/health\<close>: the handler takes nothing and touches nothing.\<close>

definition health :: "world \<Rightarrow> dict \<times> world" where
  "health w =
     ([(''data'', PDict [(''status'', PStr ''ok'')]), (''meta'', PDict []), (''errors'', PList [])], w)"

text \<open>
  \<^verbatim>\<open>POST /v1/analyze\<close>: a \<^verbatim>\<open>ValueError\<close> of the validation becomes an
  \<^verbatim>\<open>HTTPException\<close> with status 400 and the message as detail; every other exception
  passes through.
\<close>

definition analyze :: "settings \<Rightarrow> AnalyzeRequest \<Rightarrow> world \<Rightarrow> (error + AnalyzeResponse) \<times> world" where
  "analyze st req w =
     (case validate_payload req of
        Inl (ValueError m) \<Rightarrow> (Inl (HTTPException 400 m), w)
      | Inl e \<Rightarrow> (Inl e, w)
      | Inr u \<Rightarrow>
          (case analyze_image st (imageUrl req) (imageBase64 req) w of
             (Inl e, w') \<Rightarrow> (Inl e, w')
           | (Inr result, w') \<Rightarrow> (AnalyzeResponse_init result, w')))"

section \<open>Vocabulary of the properties\<close>

text \<open>
  The timestamp format \<^verbatim>\<open>YYYY-MM-DDTHH:MM:SSZ\<close> as a pattern: \<open>None\<close> stands for one
  decimal digit, \<open>Some c\<close> for the character \<open>c\<close>.
\<close>

definition is_digit :: "char \<Rightarrow> bool" where
  "is_digit c = (c \<in> set ''0123456789'')"

fun fmt_match :: "char option list \<Rightarrow> string \<Rightarrow> bool" where
  "fmt_match [] [] = True"
| "fmt_match (None # p) (c # s) = (is_digit c \<and> fmt_match p s)"
| "fmt_match (Some k # p) (c # s) = (c = k \<and> fmt_match p s)"
| "fmt_match _ _ = False"

definition iso_z_pattern :: "char option list" where
  "iso_z_pattern =
     replicate 4 None @ [Some (CHR ''-'')] @ replicate 2 None @ [Some (CHR ''-'')] @
     replicate 2 None @ [Some (CHR ''T'')] @ replicate 2 None @ [Some (CHR '':'')] @
     replicate 2 None @ [Some (CHR '':'')] @ replicate 2 None @ [Some (CHR ''Z'')]"

definition iso_z_format :: "string \<Rightarrow> bool" where
  "iso_z_format s = fmt_match iso_z_pattern s"

text \<open>
  The formatting rule in the specification's words: the time cut to whole seconds, as
  ISO-8601 with a trailing \<^verbatim>\<open>Z\<close> and no fraction. It does not read the microseconds.
\<close>

definition utc_seconds_z :: "datetime \<Rightarrow> string" where
  "utc_seconds_z d =
     fmt_0d 4 (year d) @ ''-'' @ fmt_0d 2 (month d) @ ''-'' @ fmt_0d 2 (day d) @ ''T'' @
     fmt_0d 2 (hour d) @ '':'' @ fmt_0d 2 (minute d) @ '':'' @ fmt_0d 2 (second d) @ ''Z''"

text \<open>
  A result with its two timestamps blanked: \<^verbatim>\<open>createdAt\<close> and, inside
  \<^verbatim>\<open>weatherSnapshot\<close>, \<^verbatim>\<open>capturedAt\<close> become \<^verbatim>\<open>None\<close>; every other key and value,
  and the order of the keys, stay.
\<close>

definition without_timestamps :: "dict \<Rightarrow> dict" where
  "without_timestamps r =
     map (\<lambda>(k, v).
            if k = ''createdAt'' then (k, PNone)
            else if k = ''weatherSnapshot''
            then (k, case v of
                       PDict ws \<Rightarrow>
                         PDict (map (\<lambda>(k', v'). if k' = ''capturedAt'' then (k', PNone) else (k', v')) ws)
                     | _ \<Rightarrow> v)
            else (k, v)) r"

text \<open>
  \<open>recommendations_keyed ks r\<close>: the field \<^verbatim>\<open>recommendations\<close> of \<open>r\<close> is a non-empty list
  of dicts, each with exactly the keys \<open>ks\<close>.
\<close>

definition recommendations_keyed :: "string list \<Rightarrow> dict \<Rightarrow> bool" where
  "recommendations_keyed ks r =
     (case dict_list_field r ''recommendations'' of
        None \<Rightarrow> False
      | Some es \<Rightarrow> es \<noteq> [] \<and> list_all (\<lambda>e. distinct (map fst e) \<and> set (map fst e) = set ks) es)"

text \<open>
  Two worlds to run the functions in: one logs from \<^verbatim>\<open>INFO\<close> up and its clock is in the
  middle of a second, the other logs from \<^verbatim>\<open>DEBUG\<close> up, has a record already, and its
  clock is on another day.
\<close>

definition world0 :: world where
  "world0 =
     \<lparr>level = 20, records = [],
      clock = (\<lambda>n. \<lparr>year = 2024, month = 5, day = 17, hour = 9, minute = 3, second = n,
                      microsecond = 123456\<rparr>)\<rparr>"

definition world1 :: world where
  "world1 =
     \<lparr>level = 10, records = [\<lparr>levelno = 20, msg = ''Analysis service starting'',
                                extra = [(''mock'', PBool True)]\<rparr>],
      clock = (\<lambda>n. \<lparr>year = 1999, month = 12, day = 31, hour = 23, minute = 59, second = 58,
                      microsecond = n\<rparr>)\<rparr>"

section \<open>Timestamps\<close>

lemma digit_char_is_digit: "n < 10 \<Longrightarrow> is_digit (digit_char n)"
  unfolding is_digit_def digit_char_def by (rule nth_mem) simp

lemma dec_digits: "\<forall>c\<in>set (dec n). is_digit c"
proof (induction n rule: dec.induct)
  case (1 n)
  show ?case
  proof (cases "n < 10")
    case True
    then show ?thesis by (subst dec.simps) (simp add: digit_char_is_digit)
  next
    case False
    with 1 have "\<forall>c\<in>set (dec (n div 10)). is_digit c" by simp
    with False show ?thesis by (subst dec.simps) (simp add: digit_char_is_digit)
  qed
qed

text \<open>A number below \<open>10 ^ k\<close> has at most \<open>k\<close> digits, so padding to \<open>k\<close> gives exactly \<open>k\<close>.\<close>

lemma length_dec_le: "n < 10 ^ k \<Longrightarrow> 0 < k \<Longrightarrow> length (dec n) \<le> k"
proof (induction n arbitrary: k rule: dec.induct)
  case (1 n)
  show ?case
  proof (cases "n < 10")
    case True
    with 1(3) show ?thesis by (subst dec.simps) simp
  next
    case False
    obtain j where j: "k = Suc j" using 1(3) by (cases k) auto
    have "j \<noteq> 0" using False 1(2) j by (cases j) auto
    moreover have "n div 10 < 10 ^ j" using 1(2) j by (simp add: less_mult_imp_div_less)
    ultimately have "length (dec (n div 10)) \<le> j" using 1(1) [OF False, of j] by simp
    with False j show ?thesis by (subst dec.simps) simp
  qed
qed

lemma fmt_0d_length: "n < 10 ^ k \<Longrightarrow> 0 < k \<Longrightarrow> length (fmt_0d k n) = k"
  using length_dec_le [of n k] by (simp add: fmt_0d_def zfill_def)

lemma is_digit_zero: "is_digit (CHR ''0'')"
  by (simp add: is_digit_def)

lemma fmt_0d_digits: "\<forall>c\<in>set (fmt_0d k n). is_digit c"
  using dec_digits [of n] by (auto simp: fmt_0d_def zfill_def is_digit_zero)

lemma fmt_match_digits: "\<forall>c\<in>set s. is_digit c \<Longrightarrow> fmt_match (replicate (length s) None) s"
  by (induction s) simp_all

lemma fmt_match_append:
  "length p = length s \<Longrightarrow> fmt_match (p @ q) (s @ t) = (fmt_match p s \<and> fmt_match q t)"
  by (induction p s rule: fmt_match.induct) simp_all

lemma fmt_match_field:
  assumes "n < 10 ^ k" and "0 < k"
  shows "fmt_match (replicate k None @ q) (fmt_0d k n @ t) = fmt_match q t"
proof -
  have len: "length (fmt_0d k n) = k" using assms by (rule fmt_0d_length)
  have "fmt_match (replicate k None) (fmt_0d k n)"
    using fmt_match_digits [OF fmt_0d_digits, of k n] len by simp
  then show ?thesis using len by (simp add: fmt_match_append)
qed

lemma utc_seconds_z_format:
  assumes "valid_datetime d"
  shows "iso_z_format (utc_seconds_z d)"
proof -
  from assms have b: "year d < 10 ^ 4" "month d < 10 ^ 2" "day d < 10 ^ 2" "hour d < 10 ^ 2"
    "minute d < 10 ^ 2" "second d < 10 ^ 2"
    by (simp_all add: valid_datetime_def)
  show ?thesis
    unfolding iso_z_format_def iso_z_pattern_def utc_seconds_z_def
    by (simp only: fmt_match_field [OF b(1)] fmt_match_field [OF b(2)] fmt_match_field [OF b(3)]
        fmt_match_field [OF b(4)] fmt_match_field [OF b(5)] fmt_match_field [OF b(6)]
        append_Cons append_Nil fmt_match.simps zero_less_numeral simp_thms)
qed

text \<open>What \<^verbatim>\<open>_now_iso\<close> computes is the rule of the specification, at the next reading.\<close>

lemma isoformat_seconds: "isoformat (d\<lparr>microsecond := 0\<rparr>) @ ''Z'' = utc_seconds_z d"
  by (simp add: isoformat_def utc_seconds_z_def)

lemma now_iso_eq: "now_iso w = (utc_seconds_z (clock w 0), w\<lparr>clock := \<lambda>n. clock w (Suc n)\<rparr>)"
  by (simp add: now_iso_def utcnow_def isoformat_seconds)

lemma clock_logger_log [simp]: "clock (logger_log lvl m ex w) = clock w"
  by (simp add: logger_log_def)

section \<open>The mock result\<close>

text \<open>
  The result of \<^verbatim>\<open>run_mock_analysis\<close>, with the two timestamps by the clock and the care
  tips left as a list of dicts.
\<close>

lemma run_mock_analysis_shape:
  "\<exists>recs. fst (run_mock_analysis pn w) =
       [(''id'', PStr ''analysis_mock_001''),
        (''status'', PStr ''completed''),
        (''plantName'', PStr (py_or pn ''Monstera Deliciosa'')),
        (''issues'', PList
           [PDict [(''code'', PStr ''yellow_leaf''), (''severity'', PStr ''moderate''),
                   (''confidence'', PFloat 0.72)]]),
        (''score'', PFloat 0.85),
        (''recommendations'', PList recs),
        (''weatherSnapshot'', PDict
           [(''tempC'', PInt 33), (''humidity'', PInt 70), (''condition'', PStr ''sunny''),
            (''capturedAt'', PStr (utc_seconds_z (clock w 0)))]),
        (''createdAt'', PStr (utc_seconds_z (clock w 1)))] \<and>
     (\<exists>ds. as_dicts recs = Some ds)"
  by (simp add: run_mock_analysis_def Let_def now_iso_eq logger_debug_def)

lemma fst_run_mock_analysis_cong:
  "py_or p ''Monstera Deliciosa'' = py_or q ''Monstera Deliciosa'' \<Longrightarrow> clock w = clock v \<Longrightarrow>
   fst (run_mock_analysis p w) = fst (run_mock_analysis q v)"
  by (simp add: run_mock_analysis_def Let_def now_iso_eq logger_debug_def)

lemma without_timestamps_run_mock_analysis:
  "without_timestamps (fst (run_mock_analysis pn w)) =
   without_timestamps (fst (run_mock_analysis pn v))"
  by (simp add: run_mock_analysis_def Let_def now_iso_eq logger_debug_def without_timestamps_def)

lemma fst_analyze_image_mock:
  "mock_analysis st \<Longrightarrow>
   fst (analyze_image st u b w) =
     Inr (fst (run_mock_analysis None
        (logger_info ''Received analysis request''
          [(''hasUrl'', PBool (truthy u)), (''hasBase64'', PBool (truthy b))] w)))"
  by (simp add: analyze_image_def Let_def split: prod.splits)

text \<open>The clock of \<open>world0\<close> stands at 09:03:00.123456; the two readings are a second apart.\<close>

lemma now_iso_example: "fst (now_iso world0) = ''2024-05-17T09:03:00Z''"
  by (simp add: now_iso_def utcnow_def world0_def isoformat_def fmt_0d_def zfill_def dec.simps
      digit_char_def)

lemma now_iso_example2: "fst (now_iso (snd (now_iso world0))) = ''2024-05-17T09:03:01Z''"
  by (simp add: now_iso_def utcnow_def world0_def isoformat_def fmt_0d_def zfill_def dec.simps
      digit_char_def)

lemma records_run_mock_analysis:
  "records (snd (run_mock_analysis pn w)) = records (logger_debug ''Running mock analysis'' w)"
  by (simp add: run_mock_analysis_def Let_def now_iso_eq)


section \<open>The request validator\<close>

text \<open>
  C1. \<^verbatim>\<open>validate_payload\<close> raises exactly when both \<^verbatim>\<open>imageUrl\<close> and \<^verbatim>\<open>imageBase64\<close>
  are absent or empty, and what it raises is the \<^verbatim>\<open>ValueError\<close> with the message
  "Either imageUrl or imageBase64 must be provided"; with at least one of the two present
  and non-empty (both included) it returns \<^verbatim>\<open>None\<close>. In the first case the handler
  answers 400 with that message as detail and leaves the world untouched.
\<close>

theorem validate_payload_raises_iff:
  "((\<exists>e. validate_payload req = Inl e) \<longleftrightarrow>
      \<not> truthy (imageUrl req) \<and> \<not> truthy (imageBase64 req)) \<and>
   (\<forall>e. validate_payload req = Inl e \<longrightarrow>
      e = ValueError ''Either imageUrl or imageBase64 must be provided'') \<and>
   (truthy (imageUrl req) \<or> truthy (imageBase64 req) \<longrightarrow> validate_payload req = Inr ()) \<and>
   (\<not> truthy (imageUrl req) \<and> \<not> truthy (imageBase64 req) \<longrightarrow>
      analyze st req w =
        (Inl (HTTPException 400 ''Either imageUrl or imageBase64 must be provided''), w))"
  by (simp add: validate_payload_def analyze_def)

theorem validate_payload_raises_iff_witness:
  "validate_payload \<lparr>imageUrl = Some ''https://example.com/plant.jpg'', imageBase64 = None\<rparr> = Inr () \<and>
   validate_payload \<lparr>imageUrl = Some ''https://example.com/plant.jpg'', imageBase64 = Some ''aGk=''\<rparr> = Inr () \<and>
   validate_payload \<lparr>imageUrl = None, imageBase64 = Some ''aGk=''\<rparr> = Inr () \<and>
   analyze default_settings \<lparr>imageUrl = None, imageBase64 = Some ''''\<rparr> world0 =
     (Inl (HTTPException 400 ''Either imageUrl or imageBase64 must be provided''), world0) \<and>
   analyze default_settings \<lparr>imageUrl = None, imageBase64 = None\<rparr> world0 =
     (Inl (HTTPException 400 ''Either imageUrl or imageBase64 must be provided''), world0)"
  using
    validate_payload_raises_iff
      [of "\<lparr>imageUrl = Some ''https://example.com/plant.jpg'', imageBase64 = None\<rparr>"]
    validate_payload_raises_iff
      [of "\<lparr>imageUrl = Some ''https://example.com/plant.jpg'', imageBase64 = Some ''aGk=''\<rparr>"]
    validate_payload_raises_iff [of "\<lparr>imageUrl = None, imageBase64 = Some ''aGk=''\<rparr>"]
    validate_payload_raises_iff [of "\<lparr>imageUrl = None, imageBase64 = Some ''''\<rparr>" default_settings world0]
    validate_payload_raises_iff [of "\<lparr>imageUrl = None, imageBase64 = None\<rparr>" default_settings world0]
  by simp

section \<open>The mock analyzer\<close>

text \<open>
  C2. Called without an override name, \<^verbatim>\<open>run_mock_analysis\<close> returns the literal values
  \<^verbatim>\<open>id = "analysis_mock_001"\<close>, \<^verbatim>\<open>status = "completed"\<close>,
  \<^verbatim>\<open>plantName = "Monstera Deliciosa"\<close>, \<^verbatim>\<open>score = 0.85\<close>, one issue
  \<^verbatim>\<open>{code: "yellow_leaf", severity: "moderate", confidence: 0.72}\<close>, and a weather
  snapshot with \<^verbatim>\<open>tempC = 33\<close>, \<^verbatim>\<open>humidity = 70\<close>, \<^verbatim>\<open>condition = "sunny"\<close> followed by
  its timestamp.
\<close>

theorem run_mock_analysis_literals:
  "map_of (fst (run_mock_analysis None w)) ''id'' = Some (PStr ''analysis_mock_001'') \<and>
   map_of (fst (run_mock_analysis None w)) ''status'' = Some (PStr ''completed'') \<and>
   map_of (fst (run_mock_analysis None w)) ''plantName'' = Some (PStr ''Monstera Deliciosa'') \<and>
   map_of (fst (run_mock_analysis None w)) ''score'' = Some (PFloat 0.85) \<and>
   map_of (fst (run_mock_analysis None w)) ''issues'' =
     Some (PList [PDict [(''code'', PStr ''yellow_leaf''), (''severity'', PStr ''moderate''),
                         (''confidence'', PFloat 0.72)]]) \<and>
   (\<exists>t. map_of (fst (run_mock_analysis None w)) ''weatherSnapshot'' =
     Some (PDict [(''tempC'', PInt 33), (''humidity'', PInt 70), (''condition'', PStr ''sunny''),
                  (''capturedAt'', PStr t)]))"
proof -
  obtain recs where "fst (run_mock_analysis None w) =
       [(''id'', PStr ''analysis_mock_001''),
        (''status'', PStr ''completed''),
        (''plantName'', PStr (py_or None ''Monstera Deliciosa'')),
        (''issues'', PList
           [PDict [(''code'', PStr ''yellow_leaf''), (''severity'', PStr ''moderate''),
                   (''confidence'', PFloat 0.72)]]),
        (''score'', PFloat 0.85),
        (''recommendations'', PList recs),
        (''weatherSnapshot'', PDict
           [(''tempC'', PInt 33), (''humidity'', PInt 70), (''condition'', PStr ''sunny''),
            (''capturedAt'', PStr (utc_seconds_z (clock w 0)))]),
        (''createdAt'', PStr (utc_seconds_z (clock w 1)))]"
    using run_mock_analysis_shape [of None w] by blast
  then show ?thesis by simp
qed

text \<open>
  C3. \<^verbatim>\<open>analyze_image\<close> raises \<^verbatim>\<open>NotImplementedError\<close> exactly when \<^verbatim>\<open>mock_analysis\<close>
  is false, it raises nothing else, and with \<^verbatim>\<open>mock_analysis\<close> true it returns what
  \<^verbatim>\<open>run_mock_analysis()\<close> returns after the log call. The result is one value of a sum
  type, so it never both returns and raises.
\<close>

theorem analyze_image_raises_iff:
  "((\<exists>m. fst (analyze_image st u b w) = Inl (NotImplementedError m)) \<longleftrightarrow> \<not> mock_analysis st) \<and>
   ((\<exists>e. fst (analyze_image st u b w) = Inl e) \<longleftrightarrow> \<not> mock_analysis st) \<and>
   ((\<exists>r. fst (analyze_image st u b w) = Inr r) \<longleftrightarrow> mock_analysis st) \<and>
   (mock_analysis st \<longrightarrow>
      analyze_image st u b w =
        apfst Inr (run_mock_analysis None
          (logger_info ''Received analysis request''
             [(''hasUrl'', PBool (truthy u)), (''hasBase64'', PBool (truthy b))] w)))"
  by (simp add: analyze_image_def Let_def split: prod.splits)

theorem analyze_image_raises_iff_witness:
  "mock_analysis default_settings \<and>
   analyze_image default_settings None (Some ''aGk='') world0 =
     apfst Inr (run_mock_analysis None
       (logger_info ''Received analysis request''
          [(''hasUrl'', PBool False), (''hasBase64'', PBool True)] world0)) \<and>
   \<not> mock_analysis (default_settings\<lparr>mock_analysis := False\<rparr>) \<and>
   (\<exists>m. fst (analyze_image (default_settings\<lparr>mock_analysis := False\<rparr>) None (Some ''aGk='') world0) =
      Inl (NotImplementedError m))"
  using analyze_image_raises_iff [of default_settings None "Some ''aGk=''" world0]
    analyze_image_raises_iff [of "default_settings\<lparr>mock_analysis := False\<rparr>" None "Some ''aGk=''" world0]
  by (simp add: default_settings_def)

text \<open>
  C4. Under mock mode two calls of \<^verbatim>\<open>analyze_image\<close>, with any inputs and in any two
  worlds, return results that are equal once \<^verbatim>\<open>weatherSnapshot.capturedAt\<close> and
  \<^verbatim>\<open>createdAt\<close> are blanked; and in one world the result is the same whatever
  \<^verbatim>\<open>image_url\<close> and \<^verbatim>\<open>image_base64\<close> hold.
\<close>

theorem analyze_image_mock_same_result:
  assumes "mock_analysis st"
  shows "(\<exists>r1 r2. fst (analyze_image st u1 b1 w1) = Inr r1 \<and>
            fst (analyze_image st u2 b2 w2) = Inr r2 \<and>
            without_timestamps r1 = without_timestamps r2) \<and>
         fst (analyze_image st u1 b1 w) = fst (analyze_image st u2 b2 w)"
proof -
  have "without_timestamps (fst (run_mock_analysis None
            (logger_info ''Received analysis request''
               [(''hasUrl'', PBool (truthy u1)), (''hasBase64'', PBool (truthy b1))] w1))) =
        without_timestamps (fst (run_mock_analysis None
            (logger_info ''Received analysis request''
               [(''hasUrl'', PBool (truthy u2)), (''hasBase64'', PBool (truthy b2))] w2)))"
    by (rule without_timestamps_run_mock_analysis)
  moreover have "fst (run_mock_analysis None
            (logger_info ''Received analysis request''
               [(''hasUrl'', PBool (truthy u1)), (''hasBase64'', PBool (truthy b1))] w)) =
        fst (run_mock_analysis None
            (logger_info ''Received analysis request''
               [(''hasUrl'', PBool (truthy u2)), (''hasBase64'', PBool (truthy b2))] w))"
    by (rule fst_run_mock_analysis_cong) (simp_all add: logger_info_def)
  ultimately show ?thesis
    using assms by (simp add: fst_analyze_image_mock)
qed

theorem analyze_image_mock_same_result_witness:
  "mock_analysis default_settings \<and>
   (\<exists>r1 r2. fst (analyze_image default_settings (Some ''https://example.com/a.jpg'') None world0) = Inr r1 \<and>
      fst (analyze_image default_settings None (Some ''aGk='') world1) = Inr r2 \<and>
      without_timestamps r1 = without_timestamps r2) \<and>
   fst (analyze_image default_settings (Some ''https://example.com/a.jpg'') None world0) =
   fst (analyze_image default_settings None (Some ''aGk='') world0)"
proof -
  have m: "mock_analysis default_settings" by (simp add: default_settings_def)
  show ?thesis
    using m analyze_image_mock_same_result
      [OF m, of "Some ''https://example.com/a.jpg''" None world0 None "Some ''aGk=''" world1 world0]
    by blast
qed

text \<open>
  C5, as the specification states it: every entry of \<^verbatim>\<open>recommendations\<close> has exactly the
  keys \<^verbatim>\<open>id\<close>, \<^verbatim>\<open>title\<close> and \<^verbatim>\<open>description\<close>. The code writes the third key as
  \<^verbatim>\<open>desc\<close>, so this fails already for the default call.
\<close>

theorem recommendations_description_counterexample:
  "\<not> recommendations_keyed [''id'', ''title'', ''description''] (fst (run_mock_analysis None world0))"
proof -
  have "{''id'', ''title'', ''desc''} \<noteq> {''id'', ''title'', ''description''}"
  proof
    assume eq: "{''id'', ''title'', ''desc''} = {''id'', ''title'', ''description''}"
    have "''description'' \<in> {''id'', ''title'', ''description''}" by simp
    with eq have "''description'' \<in> {''id'', ''title'', ''desc''}" by (simp only:)
    then show False by simp
  qed
  then show ?thesis
    by (simp add: recommendations_keyed_def run_mock_analysis_def Let_def now_iso_eq logger_debug_def)
qed

text \<open>
  C5, amended: the field \<^verbatim>\<open>recommendations\<close> of every result of \<^verbatim>\<open>run_mock_analysis\<close> is
  a sequence of exactly two fixed entries, \<^verbatim>\<open>tip_water_adjust\<close> and then \<^verbatim>\<open>tip_light\<close>,
  each a dict with exactly the keys \<^verbatim>\<open>id\<close>, \<^verbatim>\<open>title\<close> and \<^verbatim>\<open>desc\<close>, in this order.
\<close>

theorem recommendations_two_entries:
  "recommendations_keyed [''id'', ''title'', ''desc''] (fst (run_mock_analysis pn w)) \<and>
   map_option (map (map fst)) (dict_list_field (fst (run_mock_analysis pn w)) ''recommendations'') =
     Some [[''id'', ''title'', ''desc''], [''id'', ''title'', ''desc'']] \<and>
   map_option (map (\<lambda>e. map_of e ''id'')) (dict_list_field (fst (run_mock_analysis pn w)) ''recommendations'') =
     Some [Some (PStr ''tip_water_adjust''), Some (PStr ''tip_light'')] \<and>
   dict_list_field (fst (run_mock_analysis pn w)) ''recommendations'' =
     dict_list_field (fst (run_mock_analysis None world0)) ''recommendations''"
  by (simp add: recommendations_keyed_def run_mock_analysis_def Let_def now_iso_eq logger_debug_def)

text \<open>
  C6. In every result of \<^verbatim>\<open>run_mock_analysis\<close>, \<^verbatim>\<open>weatherSnapshot.capturedAt\<close> and
  \<^verbatim>\<open>createdAt\<close> come from one rule, applied to the first and to the second reading of
  the clock: the time cut to whole seconds, in ISO-8601 with a trailing \<^verbatim>\<open>Z\<close> and no
  fraction. For readings the clock can give, both have the form
  \<^verbatim>\<open>YYYY-MM-DDTHH:MM:SSZ\<close>.
\<close>

theorem run_mock_analysis_timestamps:
  assumes "valid_datetime (clock w 0)" and "valid_datetime (clock w 1)"
  shows "\<exists>ws. map_of (fst (run_mock_analysis pn w)) ''weatherSnapshot'' = Some (PDict ws) \<and>
           map_of ws ''capturedAt'' = Some (PStr (utc_seconds_z (clock w 0))) \<and>
           map_of (fst (run_mock_analysis pn w)) ''createdAt'' = Some (PStr (utc_seconds_z (clock w 1))) \<and>
           iso_z_format (utc_seconds_z (clock w 0)) \<and>
           iso_z_format (utc_seconds_z (clock w 1))"
proof -
  obtain recs where "fst (run_mock_analysis pn w) =
       [(''id'', PStr ''analysis_mock_001''),
        (''status'', PStr ''completed''),
        (''plantName'', PStr (py_or pn ''Monstera Deliciosa'')),
        (''issues'', PList
           [PDict [(''code'', PStr ''yellow_leaf''), (''severity'', PStr ''moderate''),
                   (''confidence'', PFloat 0.72)]]),
        (''score'', PFloat 0.85),
        (''recommendations'', PList recs),
        (''weatherSnapshot'', PDict
           [(''tempC'', PInt 33), (''humidity'', PInt 70), (''condition'', PStr ''sunny''),
            (''capturedAt'', PStr (utc_seconds_z (clock w 0)))]),
        (''createdAt'', PStr (utc_seconds_z (clock w 1)))]"
    using run_mock_analysis_shape [of pn w] by blast
  moreover note utc_seconds_z_format [OF assms(1)] utc_seconds_z_format [OF assms(2)]
  ultimately show ?thesis by simp
qed

theorem run_mock_analysis_timestamps_witness:
  "valid_datetime (clock world0 0) \<and> valid_datetime (clock world0 1) \<and>
   (\<exists>ws. map_of (fst (run_mock_analysis None world0)) ''weatherSnapshot'' = Some (PDict ws) \<and>
      map_of ws ''capturedAt'' = Some (PStr (utc_seconds_z (clock world0 0))) \<and>
      map_of (fst (run_mock_analysis None world0)) ''createdAt'' =
        Some (PStr (utc_seconds_z (clock world0 1))) \<and>
      iso_z_format (utc_seconds_z (clock world0 0)) \<and>
      iso_z_format (utc_seconds_z (clock world0 1)))"
proof -
  have v0: "valid_datetime (clock world0 0)" by (simp add: world0_def valid_datetime_def)
  have v1: "valid_datetime (clock world0 1)" by (simp add: world0_def valid_datetime_def)
  show ?thesis
    using v0 v1 run_mock_analysis_timestamps [OF v0 v1, of None] by blast
qed

section \<open>The health handler\<close>

text \<open>
  C7. The health handler returns the fixed envelope
  \<^verbatim>\<open>{"data": {"status": "ok"}, "meta": {}, "errors": []}\<close> in every world, also in the one
  an analyze request has left behind, and changes nothing.
\<close>

theorem health_fixed_envelope:
  "fst (health w) =
     [(''data'', PDict [(''status'', PStr ''ok'')]), (''meta'', PDict []), (''errors'', PList [])] \<and>
   fst (health (snd (analyze st req w))) =
     [(''data'', PDict [(''status'', PStr ''ok'')]), (''meta'', PDict []), (''errors'', PList [])] \<and>
   snd (health w) = w"
  by (simp add: health_def)

section \<open>What the log holds\<close>

text \<open>
  C8. The log after a call of \<^verbatim>\<open>analyze_image\<close> depends on \<^verbatim>\<open>image_url\<close> and
  \<^verbatim>\<open>image_base64\<close> only through \<^verbatim>\<open>bool(image_url)\<close> and \<^verbatim>\<open>bool(image_base64)\<close>: two
  calls with the same settings, in the same world, whose inputs agree on the two booleans
  leave the same log records, so nothing of the content of either input reaches the log.
  The records added are the one of \<^verbatim>\<open>analyze_image\<close>, whose \<^verbatim>\<open>extra\<close> holds the two
  booleans, and under mock mode the fixed one of \<^verbatim>\<open>run_mock_analysis\<close>, each only when
  the threshold lets it through.
\<close>

theorem analyze_image_log_presence_only:
  assumes "truthy u1 = truthy u2" and "truthy b1 = truthy b2"
  shows "records (snd (analyze_image st u1 b1 w)) = records (snd (analyze_image st u2 b2 w)) \<and>
         records (snd (analyze_image st u1 b1 w)) =
           records w @
           (if level w \<le> INFO
            then [\<lparr>levelno = INFO, msg = ''Received analysis request'',
                   extra = [(''hasUrl'', PBool (truthy u2)), (''hasBase64'', PBool (truthy b2))]\<rparr>]
            else []) @
           (if mock_analysis st \<and> level w \<le> DEBUG
            then [\<lparr>levelno = DEBUG, msg = ''Running mock analysis'', extra = []\<rparr>]
            else [])"
  using assms
  by (simp add: analyze_image_def Let_def case_prod_beta records_run_mock_analysis logger_info_def
      logger_debug_def logger_log_def DEBUG_def INFO_def)

theorem analyze_image_log_presence_only_witness:
  "truthy (Some ''https://example.com/a.jpg'') = truthy (Some ''https://example.org/b.png'') \<and>
   truthy (Some ''aGk='') = truthy (Some ''Ynll'') \<and>
   records (snd (analyze_image default_settings (Some ''https://example.com/a.jpg'') (Some ''aGk='') world1)) =
   records (snd (analyze_image default_settings (Some ''https://example.org/b.png'') (Some ''Ynll'') world1)) \<and>
   records (snd (analyze_image default_settings (Some ''https://example.com/a.jpg'') (Some ''aGk='') world1)) =
     records world1 @
     [\<lparr>levelno = 20, msg = ''Received analysis request'',
       extra = [(''hasUrl'', PBool True), (''hasBase64'', PBool True)]\<rparr>,
      \<lparr>levelno = 10, msg = ''Running mock analysis'', extra = []\<rparr>]"
proof -
  have t1: "truthy (Some ''https://example.com/a.jpg'') = truthy (Some ''https://example.org/b.png'')"
    by simp
  have t2: "truthy (Some ''aGk='') = truthy (Some ''Ynll'')" by simp
  have m: "mock_analysis default_settings" by (simp add: default_settings_def)
  have l: "level world1 = 10" by (simp add: world1_def)
  show ?thesis
    using analyze_image_log_presence_only [OF t1 t2, of default_settings world1]
    by (auto simp add: m l DEBUG_def INFO_def)
qed

section \<open>The override name and the response model\<close>

text \<open>
  C9. For a falsy override name, \<^verbatim>\<open>None\<close> and also the empty string,
  \<^verbatim>\<open>run_mock_analysis\<close> returns \<^verbatim>\<open>plantName = "Monstera Deliciosa"\<close>; the override is
  used exactly when it is a non-empty string.
\<close>

theorem run_mock_analysis_plant_name:
  "(\<not> truthy pn \<longrightarrow>
      map_of (fst (run_mock_analysis pn w)) ''plantName'' = Some (PStr ''Monstera Deliciosa'')) \<and>
   (\<forall>s. pn = Some s \<and> s \<noteq> [] \<longrightarrow>
      map_of (fst (run_mock_analysis pn w)) ''plantName'' = Some (PStr s))"
proof -
  obtain recs where "fst (run_mock_analysis pn w) =
       [(''id'', PStr ''analysis_mock_001''),
        (''status'', PStr ''completed''),
        (''plantName'', PStr (py_or pn ''Monstera Deliciosa'')),
        (''issues'', PList
           [PDict [(''code'', PStr ''yellow_leaf''), (''severity'', PStr ''moderate''),
                   (''confidence'', PFloat 0.72)]]),
        (''score'', PFloat 0.85),
        (''recommendations'', PList recs),
        (''weatherSnapshot'', PDict
           [(''tempC'', PInt 33), (''humidity'', PInt 70), (''condition'', PStr ''sunny''),
            (''capturedAt'', PStr (utc_seconds_z (clock w 0)))]),
        (''createdAt'', PStr (utc_seconds_z (clock w 1)))]"
    using run_mock_analysis_shape [of pn w] by blast
  then show ?thesis by (cases pn) auto
qed

theorem run_mock_analysis_plant_name_witness:
  "map_of (fst (run_mock_analysis None world0)) ''plantName'' = Some (PStr ''Monstera Deliciosa'') \<and>
   map_of (fst (run_mock_analysis (Some '''') world0)) ''plantName'' = Some (PStr ''Monstera Deliciosa'') \<and>
   map_of (fst (run_mock_analysis (Some ''Ficus lyrata'') world0)) ''plantName'' =
     Some (PStr ''Ficus lyrata'')"
  using run_mock_analysis_plant_name [of None world0]
    run_mock_analysis_plant_name [of "Some ''''" world0]
    run_mock_analysis_plant_name [of "Some ''Ficus lyrata''" world0]
  by simp

text \<open>
  C10. For every \<^verbatim>\<open>plant_name\<close> the dict that \<^verbatim>\<open>run_mock_analysis\<close> returns has exactly
  the eight keys of \<^verbatim>\<open>AnalyzeResponse\<close>, each once, and \<^verbatim>\<open>AnalyzeResponse(**result)\<close>
  succeeds on it; so the handler succeeds exactly when the validation passes and mock
  mode is on, and never fails with a \<^verbatim>\<open>ValidationError\<close>.
\<close>

theorem run_mock_analysis_response_fields:
  "map fst (fst (run_mock_analysis pn w)) =
     [''id'', ''status'', ''plantName'', ''issues'', ''score'', ''recommendations'',
      ''weatherSnapshot'', ''createdAt''] \<and>
   (\<exists>resp. AnalyzeResponse_init (fst (run_mock_analysis pn w)) = Inr resp) \<and>
   ((\<exists>resp. fst (analyze st req v) = Inr resp) \<longleftrightarrow>
      (truthy (imageUrl req) \<or> truthy (imageBase64 req)) \<and> mock_analysis st) \<and>
   (\<forall>m. fst (analyze st req v) \<noteq> Inl (ValidationError m))"
proof -
  have shape: "\<exists>recs. fst (run_mock_analysis p x) =
       [(''id'', PStr ''analysis_mock_001''),
        (''status'', PStr ''completed''),
        (''plantName'', PStr (py_or p ''Monstera Deliciosa'')),
        (''issues'', PList
           [PDict [(''code'', PStr ''yellow_leaf''), (''severity'', PStr ''moderate''),
                   (''confidence'', PFloat 0.72)]]),
        (''score'', PFloat 0.85),
        (''recommendations'', PList recs),
        (''weatherSnapshot'', PDict
           [(''tempC'', PInt 33), (''humidity'', PInt 70), (''condition'', PStr ''sunny''),
            (''capturedAt'', PStr (utc_seconds_z (clock x 0)))]),
        (''createdAt'', PStr (utc_seconds_z (clock x 1)))] \<and>
     (\<exists>ds. as_dicts recs = Some ds)" for p x
    by (rule run_mock_analysis_shape)
  have init: "\<exists>resp. AnalyzeResponse_init (fst (run_mock_analysis p x)) = Inr resp" for p x
    using shape [of p x] by (auto simp: AnalyzeResponse_init_def)
  have keys: "map fst (fst (run_mock_analysis pn w)) =
     [''id'', ''status'', ''plantName'', ''issues'', ''score'', ''recommendations'',
      ''weatherSnapshot'', ''createdAt'']"
    using shape [of pn w] by auto
  have handler: "fst (analyze st req v) =
      (if \<not> truthy (imageUrl req) \<and> \<not> truthy (imageBase64 req)
       then Inl (HTTPException 400 ''Either imageUrl or imageBase64 must be provided'')
       else if mock_analysis st
       then AnalyzeResponse_init (fst (run_mock_analysis None
              (logger_info ''Received analysis request''
                 [(''hasUrl'', PBool (truthy (imageUrl req))),
                  (''hasBase64'', PBool (truthy (imageBase64 req)))] v)))
       else Inl (NotImplementedError ''Real model inference not yet implemented''))"
    by (simp add: analyze_def validate_payload_def analyze_image_def Let_def split: prod.splits)
  have no_error: "AnalyzeResponse_init (fst (run_mock_analysis p x)) \<noteq> Inl e" for p x e
    using init [of p x] by auto
  have "(\<exists>resp. fst (analyze st req v) = Inr resp) \<longleftrightarrow>
      (truthy (imageUrl req) \<or> truthy (imageBase64 req)) \<and> mock_analysis st"
    by (simp add: handler init)
  moreover have "\<forall>m. fst (analyze st req v) \<noteq> Inl (ValidationError m)"
    by (simp add: handler no_error)
  ultimately show ?thesis using keys init by blast
qed

end
